theory Spec2Isabelle
  imports Main "HOL-Library.Word"
begin

section \<open>JavaScript values used by the admin helpers\<close>

text \<open>
  A JavaScript string is a sequence of UTF-16 code units. The model covers the strings
  whose code units lie in U+0000..U+00FF: a code unit is a \<^typ>\<open>char\<close> and a string is
  a \<^typ>\<open>string\<close>. On that range \<^verbatim>\<open>String.prototype.toLowerCase\<close> maps each code unit
  on its own (A..Z, and the Latin-1 capitals U+00C0..U+00DE without the multiplication
  sign U+00D7, move up by 32) and \<^verbatim>\<open>String.prototype.trim\<close> strips the ECMAScript
  WhiteSpace and LineTerminator code units TAB, LF, VT, FF, CR, SP and NBSP.
\<close>

definition isWhiteSpace :: "char \<Rightarrow> bool" where
  "isWhiteSpace c =
     (let n = (of_char c :: nat)
      in n = 0x09 \<or> n = 0x0A \<or> n = 0x0B \<or> n = 0x0C \<or> n = 0x0D \<or> n = 0x20 \<or> n = 0xA0)"

definition trim :: "string \<Rightarrow> string" where
  "trim s = rev (dropWhile isWhiteSpace (rev (dropWhile isWhiteSpace s)))"

definition toLowerChar :: "char \<Rightarrow> char" where
  "toLowerChar c =
     (let n = (of_char c :: nat)
      in if (65 \<le> n \<and> n \<le> 90) \<or> (192 \<le> n \<and> n \<le> 214) \<or> (216 \<le> n \<and> n \<le> 222)
         then char_of (n + 32) else c)"

definition toLowerCase :: "string \<Rightarrow> string" where
  "toLowerCase s = map toLowerChar s"

text \<open>
  \<^verbatim>\<open>s.split(',')\<close>: the pieces between the separators, in order; a string with no
  separator (the empty string too) gives one piece.
\<close>

fun split :: "char \<Rightarrow> string \<Rightarrow> string list" where
  "split sep [] = [[]]"
| "split sep (c # cs) =
     (if c = sep then [] # split sep cs
      else (case split sep cs of
              [] \<Rightarrow> [[c]]
            | w # ws \<Rightarrow> (c # w) # ws))"

text \<open>\<^verbatim>\<open>xs.includes(x)\<close> on an array of strings.\<close>

definition array_includes :: "string list \<Rightarrow> string \<Rightarrow> bool" where
  "array_includes xs x = (x \<in> set xs)"

text \<open>
  A thrown or returned error object; \<^verbatim>\<open>error.message\<close> may be undefined.
  Every throw of the runtime and of the client libraries used here throws an object.
\<close>

datatype js_error = JsError (message: "string option")

section \<open>src/lib/supabase/auth.ts\<close>

text \<open>
  The outcome of evaluating \<^verbatim>\<open>process.env.ADMIN_EMAILS\<close>: an exception, or the
  variable's value (\<open>None\<close> for undefined).
\<close>

type_synonym env_read = "js_error + string option"

definition fallbackAdminEmail :: string where
  "fallbackAdminEmail = ''elmahboubimehdi@gmail.com''"

text \<open>
  \<^verbatim>\<open>getAdminEmails\<close>. The test \<^verbatim>\<open>!adminEmailsEnv\<close> holds for undefined and for
  the empty string. The warning written to the console is not modelled.
\<close>

definition getAdminEmails :: "env_read \<Rightarrow> js_error + string list" where
  "getAdminEmails env =
     (case env of
        Inl e \<Rightarrow> Inl e
      | Inr adminEmailsEnv \<Rightarrow>
          (case adminEmailsEnv of
             None \<Rightarrow> Inr [fallbackAdminEmail]
           | Some s \<Rightarrow>
               if s = [] then Inr [fallbackAdminEmail]
               else Inr (filter (\<lambda>email. length email > 0)
                           (map (\<lambda>email. trim email) (split CHR '','' s)))))"

text \<open>The body of the \<^verbatim>\<open>try\<close> block of \<^verbatim>\<open>isAdmin\<close>.\<close>

definition isAdmin_try :: "env_read \<Rightarrow> string \<Rightarrow> js_error + bool" where
  "isAdmin_try env email =
     (case getAdminEmails env of
        Inl e \<Rightarrow> Inl e
      | Inr adminEmails \<Rightarrow> Inr (array_includes adminEmails (trim (toLowerCase email))))"

text \<open>
  \<^verbatim>\<open>isAdmin\<close>: the \<^verbatim>\<open>try\<close> block with its \<^verbatim>\<open>catch\<close>. The result is what the
  returned promise settles to: \<open>Inr b\<close> when it resolves to \<open>b\<close>, \<open>Inl e\<close> when it
  rejects with \<open>e\<close>.
\<close>

definition isAdmin :: "env_read \<Rightarrow> string \<Rightarrow> js_error + bool" where
  "isAdmin env email =
     (case isAdmin_try env email of
        Inl e \<Rightarrow> Inr False
      | Inr b \<Rightarrow> Inr b)"

text \<open>
  The auth provider's answer to \<^verbatim>\<open>signInWithPassword\<close>: \<^verbatim>\<open>{ data, error }\<close> with
  \<^verbatim>\<open>data.user\<close> and \<^verbatim>\<open>error\<close> each an object or null. The provider itself is not
  part of the repository and is a parameter: a function from the credentials to the
  settled promise.
\<close>

record user =
  user_email :: "string option"

record sign_in_response =
  data_user :: "user option"
  signin_error :: "js_error option"

type_synonym auth_provider = "string \<Rightarrow> string \<Rightarrow> js_error + sign_in_response"

record auth_result =
  success :: bool
  error :: "string option"

text \<open>
  The body of the \<^verbatim>\<open>try\<close> block of \<^verbatim>\<open>authenticateAdmin\<close>. \<^verbatim>\<open>data.user.email || ''\<close>
  is the email, or the empty string when it is undefined (or empty).
\<close>

definition authenticateAdmin_try ::
  "auth_provider \<Rightarrow> env_read \<Rightarrow> string \<Rightarrow> string \<Rightarrow> js_error + auth_result" where
  "authenticateAdmin_try signInWithPassword env email password =
     (case signInWithPassword email password of
        Inl e \<Rightarrow> Inl e
      | Inr resp \<Rightarrow>
          (case signin_error resp of
             Some err \<Rightarrow> Inr \<lparr>success = False, error = message err\<rparr>
           | None \<Rightarrow>
               (case data_user resp of
                  None \<Rightarrow> Inr \<lparr>success = False, error = Some ''Authentication failed''\<rparr>
                | Some u \<Rightarrow>
                    (case isAdmin env (case user_email u of None \<Rightarrow> [] | Some em \<Rightarrow> em) of
                       Inl e \<Rightarrow> Inl e
                     | Inr adminStatus \<Rightarrow>
                         if \<not> adminStatus
                         then Inr \<lparr>success = False,
                                   error = Some ''Access denied. Admin access required.''\<rparr>
                         else Inr \<lparr>success = True, error = None\<rparr>))))"

text \<open>\<^verbatim>\<open>authenticateAdmin\<close>: the \<^verbatim>\<open>try\<close> block with its \<^verbatim>\<open>catch\<close>.\<close>

definition authenticateAdmin ::
  "auth_provider \<Rightarrow> env_read \<Rightarrow> string \<Rightarrow> string \<Rightarrow> js_error + auth_result" where
  "authenticateAdmin signInWithPassword env email password =
     (case authenticateAdmin_try signInWithPassword env email password of
        Inl e \<Rightarrow> Inr \<lparr>success = False, error = Some ''Authentication failed''\<rparr>
      | Inr r \<Rightarrow> Inr r)"

section \<open>src/app/api/admin/upload-image/route.ts\<close>

text \<open>
  \<^verbatim>\<open>formData.get(name)\<close> gives the first entry of that name, a File or a string, or
  null. The casts \<^verbatim>\<open>as File\<close> and \<^verbatim>\<open>as string\<close> do nothing at run time, so the
  handler's \<^verbatim>\<open>file\<close> and \<^verbatim>\<open>path\<close> are entries of either kind.
\<close>

record js_file =
  file_bytes :: "8 word list"
  file_type :: string

datatype form_entry = FileEntry js_file | StringEntry string

type_synonym form_data = "(string \<times> form_entry) list"

definition formData_get :: "form_data \<Rightarrow> string \<Rightarrow> form_entry option" where
  "formData_get formData name = map_of formData name"

text \<open>
  The storage client is a parameter. \<^verbatim>\<open>upload\<close> answers \<^verbatim>\<open>{ data, error }\<close> (here
  \<open>data_path\<close> is \<^verbatim>\<open>data.path\<close>, \<open>None\<close> when \<^verbatim>\<open>data\<close> is null) or throws;
  \<^verbatim>\<open>getPublicUrl\<close> computes the URL of a path in a bucket.
\<close>

record upload_call =
  bucket :: string
  upload_path :: form_entry
  body :: "8 word list"
  contentType :: string
  upsert :: bool

record upload_response =
  data_path :: "string option"
  upload_error :: "js_error option"

record storage_client =
  upload :: "upload_call \<Rightarrow> js_error + upload_response"
  getPublicUrl :: "string \<Rightarrow> form_entry \<Rightarrow> js_error + string"

text \<open>\<^verbatim>\<open>NextResponse.json(body, { status })\<close>; the status is 200 when none is given.\<close>

record http_response =
  status :: nat
  json :: "(string \<times> string) list"

text \<open>\<^verbatim>\<open>error.message || d\<close>: an undefined or empty message gives \<open>d\<close>.\<close>

definition message_or :: "js_error \<Rightarrow> string \<Rightarrow> string" where
  "message_or e d = (case message e of None \<Rightarrow> d | Some m \<Rightarrow> if m = [] then d else m)"

text \<open>The TypeErrors of the engine, in V8's wording.\<close>

definition typeError_arrayBuffer :: js_error where
  "typeError_arrayBuffer = JsError (Some ''file.arrayBuffer is not a function'')"

definition typeError_data_path :: js_error where
  "typeError_data_path =
     JsError (Some (''Cannot read properties of null (reading '' @ [CHR 0x27] @ ''path''
                    @ [CHR 0x27] @ '')''))"

text \<open>
  The body of the \<^verbatim>\<open>try\<close> block of \<^verbatim>\<open>POST\<close>, from the outcome of
  \<^verbatim>\<open>request.formData()\<close>. The result is the list of uploads sent to object storage and
  the response, or the exception that left the block. \<^verbatim>\<open>!file\<close> and \<^verbatim>\<open>!path\<close> hold
  for null and for the empty string. The console output is not modelled.
\<close>

definition POST_try ::
  "storage_client \<Rightarrow> js_error + form_data \<Rightarrow> upload_call list \<times> (js_error + http_response)" where
  "POST_try supabaseAdmin formDataResult =
     (case formDataResult of
        Inl e \<Rightarrow> ([], Inl e)
      | Inr formData \<Rightarrow>
          (case formData_get formData ''file'' of
             None \<Rightarrow> ([], Inr \<lparr>status = 400, json = [(''error'', ''No file provided'')]\<rparr>)
           | Some file \<Rightarrow>
               if file = StringEntry []
               then ([], Inr \<lparr>status = 400, json = [(''error'', ''No file provided'')]\<rparr>)
               else
                 (case formData_get formData ''path'' of
                    None \<Rightarrow> ([], Inr \<lparr>status = 400, json = [(''error'', ''No path provided'')]\<rparr>)
                  | Some path \<Rightarrow>
                      if path = StringEntry []
                      then ([], Inr \<lparr>status = 400, json = [(''error'', ''No path provided'')]\<rparr>)
                      else
                        (case file of
                           StringEntry s \<Rightarrow> ([], Inl typeError_arrayBuffer)
                         | FileEntry f \<Rightarrow>
                             (let call = \<lparr>bucket = ''product-images'', upload_path = path,
                                          body = file_bytes f, contentType = file_type f,
                                          upsert = True\<rparr>
                              in case upload supabaseAdmin call of
                                   Inl e \<Rightarrow> ([call], Inl e)
                                 | Inr resp \<Rightarrow>
                                     (case upload_error resp of
                                        Some err \<Rightarrow>
                                          ([call], Inr \<lparr>status = 500,
                                             json = [(''error'',
                                                message_or err ''Failed to upload image'')]\<rparr>)
                                      | None \<Rightarrow>
                                          (case getPublicUrl supabaseAdmin ''product-images'' path of
                                             Inl e \<Rightarrow> ([call], Inl e)
                                           | Inr publicUrl \<Rightarrow>
                                               (case data_path resp of
                                                  None \<Rightarrow> ([call], Inl typeError_data_path)
                                                | Some p \<Rightarrow>
                                                    ([call], Inr \<lparr>status = 200,
                                                       json = [(''url'', publicUrl),
                                                               (''path'', p)]\<rparr>)))))))))"

text \<open>\<^verbatim>\<open>POST\<close>: the \<^verbatim>\<open>try\<close> block with its \<^verbatim>\<open>catch\<close>.\<close>

definition POST ::
  "storage_client \<Rightarrow> js_error + form_data \<Rightarrow> upload_call list \<times> (js_error + http_response)" where
  "POST supabaseAdmin formDataResult =
     (case POST_try supabaseAdmin formDataResult of
        (calls, Inl e) \<Rightarrow>
          (calls, Inr \<lparr>status = 500,
                       json = [(''error'', message_or e ''Failed to upload image'')]\<rparr>)
      | (calls, Inr r) \<Rightarrow> (calls, Inr r))"

section \<open>Properties of the string operations\<close>

lemma of_char_toLowerChar:
  "(of_char (toLowerChar c) :: nat) =
     (let n = of_char c
      in if (65 \<le> n \<and> n \<le> 90) \<or> (192 \<le> n \<and> n \<le> 214) \<or> (216 \<le> n \<and> n \<le> 222)
         then n + 32 else n)"
  by (simp add: toLowerChar_def Let_def)

lemma isWhiteSpace_toLowerChar: "isWhiteSpace (toLowerChar c) = isWhiteSpace c"
  unfolding isWhiteSpace_def of_char_toLowerChar Let_def by auto

lemma toLowerChar_idem: "toLowerChar (toLowerChar c) = toLowerChar c"
  by (rule of_char_eqI [where 'a = nat]) (simp add: of_char_toLowerChar Let_def)

lemma dropWhile_toLowerCase:
  "dropWhile isWhiteSpace (toLowerCase s) = toLowerCase (dropWhile isWhiteSpace s)"
  by (induction s) (simp_all add: toLowerCase_def isWhiteSpace_toLowerChar)

lemma rev_toLowerCase: "rev (toLowerCase s) = toLowerCase (rev s)"
  by (simp add: toLowerCase_def rev_map)

lemma trim_toLowerCase: "trim (toLowerCase s) = toLowerCase (trim s)"
  by (simp add: trim_def dropWhile_toLowerCase rev_toLowerCase)

lemma toLowerCase_idem: "toLowerCase (toLowerCase s) = toLowerCase s"
  by (simp add: toLowerCase_def toLowerChar_idem)

lemma trim_Nil: "trim [] = []"
  by (simp add: trim_def)

lemma toLowerCase_Nil: "toLowerCase [] = []"
  by (simp add: toLowerCase_def)

lemma trim_all_white: "\<forall>c\<in>set w. isWhiteSpace c \<Longrightarrow> trim w = []"
proof -
  assume "\<forall>c\<in>set w. isWhiteSpace c"
  then have d: "dropWhile isWhiteSpace w = []" by simp
  show ?thesis unfolding trim_def d by simp
qed

lemma split_not_Nil: "split sep s \<noteq> []"
  by (induction s) (simp_all split: list.splits)

lemma split_pieces:
  "w \<in> set (split sep s) \<Longrightarrow> set w \<subseteq> set s - {sep}"
proof (induction s arbitrary: w)
  case Nil
  then show ?case by simp
next
  case (Cons c cs)
  show ?case
  proof (cases "c = sep")
    case True
    with Cons.prems have "w = [] \<or> w \<in> set (split sep cs)" by simp
    with Cons.IH show ?thesis by auto
  next
    case False
    obtain v vs where vs: "split sep cs = v # vs"
      using split_not_Nil [of sep cs] by (cases "split sep cs") simp_all
    from Cons.IH [of v] vs have v: "set v \<subseteq> set cs - {sep}" by simp
    from Cons.prems False vs have "w = c # v \<or> w \<in> set (split sep cs)" by auto
    then show ?thesis
    proof
      assume "w = c # v"
      with v False show ?thesis by auto
    next
      assume "w \<in> set (split sep cs)"
      with Cons.IH [of w] show ?thesis by auto
    qed
  qed
qed

lemma blank_pieces:
  assumes "\<forall>c\<in>set s. c = CHR '','' \<or> isWhiteSpace c"
  shows "\<forall>w\<in>set (split CHR '','' s). trim w = []"
proof
  fix w assume "w \<in> set (split CHR '','' s)"
  then have "set w \<subseteq> set s - {CHR '',''}" by (rule split_pieces)
  with assms have "\<forall>c\<in>set w. isWhiteSpace c" by auto
  then show "trim w = []" by (rule trim_all_white)
qed

section \<open>Properties of the allow-list and of \<^verbatim>\<open>isAdmin\<close>\<close>

lemma getAdminEmails_no_empty: "getAdminEmails env = Inr l \<Longrightarrow> [] \<notin> set l"
  by (auto simp: getAdminEmails_def fallbackAdminEmail_def split: sum.splits option.splits if_splits)

lemma isAdmin_total: "\<exists>b. isAdmin env email = Inr b"
  by (cases "isAdmin_try env email") (auto simp: isAdmin_def)

lemma isAdmin_member:
  "getAdminEmails env = Inr l \<Longrightarrow> isAdmin env email = Inr (trim (toLowerCase email) \<in> set l)"
  by (simp add: isAdmin_def isAdmin_try_def array_includes_def)

lemma isAdmin_env_throws: "getAdminEmails env = Inl e \<Longrightarrow> isAdmin env email = Inr False"
  by (simp add: isAdmin_def isAdmin_try_def)

lemma isAdmin_same_normal_form:
  "trim (toLowerCase a) = trim (toLowerCase b) \<Longrightarrow> isAdmin env a = isAdmin env b"
  by (cases "getAdminEmails env") (simp_all add: isAdmin_def isAdmin_try_def)

lemma uppercase_entry_never_matches:
  assumes "c \<in> set w" and "toLowerChar c \<noteq> c"
  shows "trim (toLowerCase email) \<noteq> w"
proof
  assume "trim (toLowerCase email) = w"
  then have "w = toLowerCase (trim email)" by (simp add: trim_toLowerCase)
  with assms(1) obtain d where "c = toLowerChar d" by (auto simp: toLowerCase_def)
  with assms(2) show False by (simp add: toLowerChar_idem)
qed

lemma isAdmin_empty: "isAdmin env [] = Inr False"
proof (cases "getAdminEmails env")
  case (Inl e)
  then show ?thesis by (rule isAdmin_env_throws)
next
  case (Inr l)
  then show ?thesis
    using getAdminEmails_no_empty [OF Inr] by (simp add: isAdmin_member trim_Nil toLowerCase_Nil)
qed

text \<open>
  C1. \<^verbatim>\<open>isAdmin\<close> answers whether the trimmed, lowercased input is an element of the
  parsed list (\<open>isAdmin_member\<close>), and inputs with the same normal form get the same
  answer (\<open>isAdmin_same_normal_form\<close>). The entries of the list are trimmed but not
  lowercased, so an entry with a capital letter matches no input
  (\<open>uppercase_entry_never_matches\<close>): with
  \<^verbatim>\<open>ADMIN_EMAILS=Admin@Example.com\<close> the list is \<^verbatim>\<open>['Admin@Example.com']\<close>, and both
  \<^verbatim>\<open>admin@example.com\<close> and \<^verbatim>\<open>Admin@Example.com\<close>, which equal the entry up to letter
  case, are refused.
\<close>

theorem isAdmin_uppercase_entry_rejected:
  "getAdminEmails (Inr (Some ''Admin@Example.com'')) = Inr [''Admin@Example.com'']
   \<and> trim (toLowerCase ''Admin@Example.com'') = ''admin@example.com''
   \<and> isAdmin (Inr (Some ''Admin@Example.com'')) ''admin@example.com'' = Inr False
   \<and> isAdmin (Inr (Some ''Admin@Example.com'')) ''Admin@Example.com'' = Inr False"
  by code_simp

text \<open>
  C5. With \<^verbatim>\<open>ADMIN_EMAILS\<close> unset the allow-list is the single hardcoded address, and
  \<^verbatim>\<open>isAdmin\<close> answers true exactly for the inputs whose normal form (lowercased,
  trimmed) is that address.
\<close>

theorem unset_env_fallback:
  "getAdminEmails (Inr None) = Inr [''elmahboubimehdi@gmail.com'']
   \<and> isAdmin (Inr None) email = Inr (trim (toLowerCase email) = ''elmahboubimehdi@gmail.com'')"
  by (simp add: isAdmin_def isAdmin_try_def getAdminEmails_def fallbackAdminEmail_def
      array_includes_def)


text \<open>
  C6, as stated, fails for the empty string: \<^verbatim>\<open>!adminEmailsEnv\<close> holds for it, so
  \<^verbatim>\<open>ADMIN_EMAILS=\<close> gives the hardcoded fallback, not the empty list, and the
  hardcoded address is accepted.
\<close>

theorem empty_env_uses_fallback:
  "getAdminEmails (Inr (Some [])) = Inr [''elmahboubimehdi@gmail.com'']
   \<and> isAdmin (Inr (Some [])) ''elmahboubimehdi@gmail.com'' = Inr True"
  by code_simp

text \<open>
  C6, amended. The hardcoded fallback applies only when \<^verbatim>\<open>ADMIN_EMAILS\<close> is unset or
  the empty string: for every non-empty value the allow-list is exactly the list of the
  non-empty trimmed pieces of the value split on commas. When a non-empty value has no
  non-empty entry after splitting on commas and trimming (in particular a non-empty
  string of commas and whitespace only), the parsed allow-list is empty, whitespace-only
  entries being filtered out, and \<^verbatim>\<open>isAdmin\<close> answers false for every input.
\<close>

theorem fallback_only_unset_or_empty:
  "getAdminEmails (Inr None) = Inr [''elmahboubimehdi@gmail.com'']
   \<and> getAdminEmails (Inr (Some [])) = Inr [''elmahboubimehdi@gmail.com'']
   \<and> (s \<noteq> []
      \<longrightarrow> getAdminEmails (Inr (Some s)) =
            Inr (filter (\<lambda>entry. entry \<noteq> []) (map trim (split CHR '','' s))))
   \<and> (s \<noteq> [] \<and> (\<forall>w\<in>set (split CHR '','' s). trim w = [])
      \<longrightarrow> getAdminEmails (Inr (Some s)) = Inr [] \<and> isAdmin (Inr (Some s)) email = Inr False)
   \<and> (s \<noteq> [] \<and> (\<forall>c\<in>set s. c = CHR '','' \<or> isWhiteSpace c)
      \<longrightarrow> getAdminEmails (Inr (Some s)) = Inr [] \<and> isAdmin (Inr (Some s)) email = Inr False)"
proof -
  have u: "getAdminEmails (Inr None) = Inr [''elmahboubimehdi@gmail.com'']"
    and e: "getAdminEmails (Inr (Some [])) = Inr [''elmahboubimehdi@gmail.com'']"
    by (simp_all add: getAdminEmails_def fallbackAdminEmail_def)
  have n: "getAdminEmails (Inr (Some s)) =
            Inr (filter (\<lambda>entry. entry \<noteq> []) (map trim (split CHR '','' s)))"
    if "s \<noteq> []"
    using that by (simp add: getAdminEmails_def)
  have a: "getAdminEmails (Inr (Some s)) = Inr [] \<and> isAdmin (Inr (Some s)) email = Inr False"
    if "s \<noteq> []" and "\<forall>w\<in>set (split CHR '','' s). trim w = []"
  proof -
    from that have "getAdminEmails (Inr (Some s)) = Inr []"
      by (simp add: n filter_empty_conv)
    then show ?thesis by (simp add: isAdmin_member)
  qed
  from u e n a blank_pieces show ?thesis by blast
qed

theorem fallback_only_unset_or_empty_witness:
  "''none'' \<noteq> [] \<and> getAdminEmails (Inr (Some ''none'')) = Inr [''none'']
   \<and> isAdmin (Inr (Some ''none'')) ''elmahboubimehdi@gmail.com'' = Inr False
   \<and> '', ,  '' \<noteq> [] \<and> map trim (split CHR '','' '', ,  '') = [[], [], []]
   \<and> list_all (\<lambda>c. c = CHR '','' \<or> isWhiteSpace c) '', ,  ''
   \<and> getAdminEmails (Inr (Some '', ,  '')) = Inr []
   \<and> isAdmin (Inr (Some '', ,  '')) ''elmahboubimehdi@gmail.com'' = Inr False"
proof -
  from fallback_only_unset_or_empty [of "''none''" "''elmahboubimehdi@gmail.com''"]
  have a: "getAdminEmails (Inr (Some ''none'')) = Inr [''none'']"
    by (simp add: trim_def isWhiteSpace_def)
  then have b: "isAdmin (Inr (Some ''none'')) ''elmahboubimehdi@gmail.com'' = Inr False"
    by (simp add: isAdmin_member trim_def toLowerCase_def toLowerChar_def isWhiteSpace_def)
  from fallback_only_unset_or_empty [of "'', ,  ''" "''elmahboubimehdi@gmail.com''"]
  have c: "getAdminEmails (Inr (Some '', ,  '')) = Inr []
     \<and> isAdmin (Inr (Some '', ,  '')) ''elmahboubimehdi@gmail.com'' = Inr False"
    by (simp add: trim_def isWhiteSpace_def)
  from a b c show ?thesis by (simp add: trim_def isWhiteSpace_def)
qed

text \<open>
  C3. \<^verbatim>\<open>isAdmin\<close> always resolves to a boolean, never rejects, and resolves to false
  whenever an exception leaves its \<^verbatim>\<open>try\<close> block, in particular when reading the
  configuration throws.
\<close>

theorem isAdmin_never_throws:
  "(\<exists>b. isAdmin env email = Inr b)
   \<and> (\<forall>e. isAdmin_try env email = Inl e \<longrightarrow> isAdmin env email = Inr False)
   \<and> (\<forall>e. getAdminEmails env = Inl e \<longrightarrow> isAdmin env email = Inr False)
   \<and> (\<forall>e. env = Inl e \<longrightarrow> isAdmin env email = Inr False)"
proof -
  have "isAdmin env email = Inr False" if "env = Inl e" for e
    using that by (simp add: isAdmin_env_throws getAdminEmails_def)
  moreover have "isAdmin env email = Inr False" if "isAdmin_try env email = Inl e" for e
    using that by (simp add: isAdmin_def)
  ultimately show ?thesis
    using isAdmin_total [of env email] isAdmin_env_throws [of env _ email] by blast
qed

theorem isAdmin_never_throws_witness:
  "isAdmin_try (Inl (JsError (Some ''EACCES''))) ''admin@example.com'' = Inl (JsError (Some ''EACCES''))
   \<and> getAdminEmails (Inl (JsError (Some ''EACCES''))) = Inl (JsError (Some ''EACCES''))
   \<and> isAdmin (Inl (JsError (Some ''EACCES''))) ''admin@example.com'' = Inr False"
  using isAdmin_never_throws [of "Inl (JsError (Some ''EACCES''))" "''admin@example.com''"]
  by (simp add: isAdmin_try_def getAdminEmails_def)

section \<open>Properties of \<^verbatim>\<open>authenticateAdmin\<close>\<close>

lemma authenticateAdmin_total: "\<exists>r. authenticateAdmin signIn env email password = Inr r"
  by (cases "authenticateAdmin_try signIn env email password") (auto simp: authenticateAdmin_def)

lemma authenticateAdmin_provider_error:
  "signIn email password = Inr resp \<Longrightarrow> signin_error resp = Some err \<Longrightarrow>
   authenticateAdmin signIn env email password = Inr \<lparr>success = False, error = message err\<rparr>"
  by (simp add: authenticateAdmin_def authenticateAdmin_try_def)

lemma authenticateAdmin_no_user:
  "signIn email password = Inr resp \<Longrightarrow> signin_error resp = None \<Longrightarrow> data_user resp = None \<Longrightarrow>
   authenticateAdmin signIn env email password =
     Inr \<lparr>success = False, error = Some ''Authentication failed''\<rparr>"
  by (simp add: authenticateAdmin_def authenticateAdmin_try_def)

lemma authenticateAdmin_user:
  "signIn email password = Inr resp \<Longrightarrow> signin_error resp = None \<Longrightarrow> data_user resp = Some u \<Longrightarrow>
   isAdmin env (case user_email u of None \<Rightarrow> [] | Some em \<Rightarrow> em) = Inr b \<Longrightarrow>
   authenticateAdmin signIn env email password =
     (if b then Inr \<lparr>success = True, error = None\<rparr>
      else Inr \<lparr>success = False, error = Some ''Access denied. Admin access required.''\<rparr>)"
  by (simp add: authenticateAdmin_def authenticateAdmin_try_def)

lemma authenticateAdmin_throw:
  "authenticateAdmin_try signIn env email password = Inl e \<Longrightarrow>
   authenticateAdmin signIn env email password =
     Inr \<lparr>success = False, error = Some ''Authentication failed''\<rparr>"
  by (simp add: authenticateAdmin_def)

lemma authenticateAdmin_try_provider_throw:
  "signIn email password = Inl e \<Longrightarrow> authenticateAdmin_try signIn env email password = Inl e"
  by (simp add: authenticateAdmin_try_def)

lemma authenticateAdmin_success_only_with_user:
  assumes "authenticateAdmin signIn env email password = Inr r" and "success r"
  shows "\<exists>resp u. signIn email password = Inr resp \<and> signin_error resp = None
           \<and> data_user resp = Some u
           \<and> isAdmin env (case user_email u of None \<Rightarrow> [] | Some em \<Rightarrow> em) = Inr True"
  using assms
  by (auto simp: authenticateAdmin_def authenticateAdmin_try_def
      split: sum.splits option.splits if_splits)

text \<open>
  C2. When the provider's sign-in succeeds with a user whose email, lowercased and
  trimmed, is not in the allow-list, \<^verbatim>\<open>authenticateAdmin\<close> resolves to failure with the
  fixed message \<^verbatim>\<open>Access denied. Admin access required.\<close>. When the provider's sign-in
  answers with an error, the result is failure with the provider's message, unchanged.
  The two results differ for every provider message other than the fixed text itself,
  so the denial of the allow-list is told apart from a failed sign-in.
\<close>

theorem authenticateAdmin_access_denied:
  "(signIn email password = Inr resp \<and> signin_error resp = None \<and> data_user resp = Some u
      \<and> user_email u = Some em \<and> getAdminEmails env = Inr adminEmails
      \<and> trim (toLowerCase em) \<notin> set adminEmails
    \<longrightarrow> authenticateAdmin signIn env email password =
          Inr \<lparr>success = False, error = Some ''Access denied. Admin access required.''\<rparr>)
   \<and> (signIn' email' password' = Inr resp' \<and> signin_error resp' = Some err
    \<longrightarrow> authenticateAdmin signIn' env' email' password' =
          Inr \<lparr>success = False, error = message err\<rparr>)
   \<and> (signIn email password = Inr resp \<and> signin_error resp = None \<and> data_user resp = Some u
      \<and> user_email u = Some em \<and> getAdminEmails env = Inr adminEmails
      \<and> trim (toLowerCase em) \<notin> set adminEmails
      \<and> signIn' email' password' = Inr resp' \<and> signin_error resp' = Some err
      \<and> message err \<noteq> Some ''Access denied. Admin access required.''
    \<longrightarrow> authenticateAdmin signIn env email password
          \<noteq> authenticateAdmin signIn' env' email' password')"
proof -
  have a: "authenticateAdmin signIn env email password =
          Inr \<lparr>success = False, error = Some ''Access denied. Admin access required.''\<rparr>"
    if "signIn email password = Inr resp" "signin_error resp = None" "data_user resp = Some u"
      "user_email u = Some em" "getAdminEmails env = Inr adminEmails"
      "trim (toLowerCase em) \<notin> set adminEmails"
  proof -
    from that have "isAdmin env (case user_email u of None \<Rightarrow> [] | Some em \<Rightarrow> em) = Inr False"
      by (simp add: isAdmin_member)
    with authenticateAdmin_user [of signIn email password resp u env False] that(1-3)
    show ?thesis by simp
  qed
  have b: "authenticateAdmin signIn' env' email' password' =
          Inr \<lparr>success = False, error = message err\<rparr>"
    if "signIn' email' password' = Inr resp'" "signin_error resp' = Some err"
    using that by (rule authenticateAdmin_provider_error)
  show ?thesis
  proof (intro conjI impI)
    assume h: "signIn email password = Inr resp \<and> signin_error resp = None \<and> data_user resp = Some u
      \<and> user_email u = Some em \<and> getAdminEmails env = Inr adminEmails
      \<and> trim (toLowerCase em) \<notin> set adminEmails
      \<and> signIn' email' password' = Inr resp' \<and> signin_error resp' = Some err
      \<and> message err \<noteq> Some ''Access denied. Admin access required.''"
    then have "authenticateAdmin signIn env email password =
          Inr \<lparr>success = False, error = Some ''Access denied. Admin access required.''\<rparr>"
      using a by blast
    moreover from h have "authenticateAdmin signIn' env' email' password' =
          Inr \<lparr>success = False, error = message err\<rparr>"
      using b by blast
    ultimately show "authenticateAdmin signIn env email password
          \<noteq> authenticateAdmin signIn' env' email' password'"
      using h by auto
  qed (use a b in blast)+
qed


theorem authenticateAdmin_access_denied_witness:
  "(\<lambda>e p. if p = ''secret''
           then Inr \<lparr>data_user = Some \<lparr>user_email = Some ''Bob@Example.com ''\<rparr>, signin_error = None\<rparr>
           else Inr \<lparr>data_user = None,
                     signin_error = Some (JsError (Some ''Invalid login credentials''))\<rparr>)
      ''bob@example.com'' ''secret''
     = Inr \<lparr>data_user = Some \<lparr>user_email = Some ''Bob@Example.com ''\<rparr>, signin_error = None\<rparr>
   \<and> getAdminEmails (Inr (Some ''alice@example.com'')) = Inr [''alice@example.com'']
   \<and> trim (toLowerCase ''Bob@Example.com '') \<notin> set [''alice@example.com'']
   \<and> authenticateAdmin
        (\<lambda>e p. if p = ''secret''
           then Inr \<lparr>data_user = Some \<lparr>user_email = Some ''Bob@Example.com ''\<rparr>, signin_error = None\<rparr>
           else Inr \<lparr>data_user = None,
                     signin_error = Some (JsError (Some ''Invalid login credentials''))\<rparr>)
        (Inr (Some ''alice@example.com'')) ''bob@example.com'' ''secret''
     = Inr \<lparr>success = False, error = Some ''Access denied. Admin access required.''\<rparr>
   \<and> authenticateAdmin
        (\<lambda>e p. if p = ''secret''
           then Inr \<lparr>data_user = Some \<lparr>user_email = Some ''Bob@Example.com ''\<rparr>, signin_error = None\<rparr>
           else Inr \<lparr>data_user = None,
                     signin_error = Some (JsError (Some ''Invalid login credentials''))\<rparr>)
        (Inr (Some ''alice@example.com'')) ''bob@example.com'' ''wrong''
     = Inr \<lparr>success = False, error = Some ''Invalid login credentials''\<rparr>"
  using authenticateAdmin_access_denied
    [of "\<lambda>e p. if p = ''secret''
           then Inr \<lparr>data_user = Some \<lparr>user_email = Some ''Bob@Example.com ''\<rparr>, signin_error = None\<rparr>
           else Inr \<lparr>data_user = None,
                     signin_error = Some (JsError (Some ''Invalid login credentials''))\<rparr>"
        "''bob@example.com''" "''secret''"
        "\<lparr>data_user = Some \<lparr>user_email = Some ''Bob@Example.com ''\<rparr>, signin_error = None\<rparr>"
        "\<lparr>user_email = Some ''Bob@Example.com ''\<rparr>" "''Bob@Example.com ''"
        "Inr (Some ''alice@example.com'')" "[''alice@example.com'']"
        "\<lambda>e p. if p = ''secret''
           then Inr \<lparr>data_user = Some \<lparr>user_email = Some ''Bob@Example.com ''\<rparr>, signin_error = None\<rparr>
           else Inr \<lparr>data_user = None,
                     signin_error = Some (JsError (Some ''Invalid login credentials''))\<rparr>"
        "''bob@example.com''" "''wrong''"
        "\<lparr>data_user = None, signin_error = Some (JsError (Some ''Invalid login credentials''))\<rparr>"
        "JsError (Some ''Invalid login credentials'')" "Inr (Some ''alice@example.com'')"]
  by (simp add: getAdminEmails_def trim_def toLowerCase_def toLowerChar_def isWhiteSpace_def
      char_of_def)

text \<open>
  C4. \<^verbatim>\<open>authenticateAdmin\<close> always resolves and never rejects. When an exception leaves
  its \<^verbatim>\<open>try\<close> block, in particular when the provider's call throws, the result is
  failure with the message \<^verbatim>\<open>Authentication failed\<close>, whatever the exception was.
\<close>

theorem authenticateAdmin_generic_failure:
  "(\<exists>r. authenticateAdmin signIn env email password = Inr r)
   \<and> (authenticateAdmin_try signIn env email password = Inl e
      \<longrightarrow> authenticateAdmin signIn env email password =
            Inr \<lparr>success = False, error = Some ''Authentication failed''\<rparr>)
   \<and> (signIn email password = Inl e
      \<longrightarrow> authenticateAdmin signIn env email password =
            Inr \<lparr>success = False, error = Some ''Authentication failed''\<rparr>)"
  using authenticateAdmin_total [of signIn env email password]
    authenticateAdmin_throw [of signIn env email password e]
    authenticateAdmin_try_provider_throw [of signIn email password e env]
  by blast

theorem authenticateAdmin_generic_failure_witness:
  "(\<lambda>e p. Inl (JsError (Some ''fetch failed''))) ''admin@example.com'' ''secret''
     = (Inl (JsError (Some ''fetch failed'')) :: js_error + sign_in_response)
   \<and> authenticateAdmin_try (\<lambda>e p. Inl (JsError (Some ''fetch failed''))) (Inr None)
        ''admin@example.com'' ''secret'' = Inl (JsError (Some ''fetch failed''))
   \<and> authenticateAdmin (\<lambda>e p. Inl (JsError (Some ''fetch failed''))) (Inr None)
        ''admin@example.com'' ''secret''
     = Inr \<lparr>success = False, error = Some ''Authentication failed''\<rparr>"
  using authenticateAdmin_generic_failure
    [of "\<lambda>e p. Inl (JsError (Some ''fetch failed''))" "Inr None" "''admin@example.com''"
        "''secret''" "JsError (Some ''fetch failed'')"]
  by (simp add: authenticateAdmin_try_def)

text \<open>
  C10. \<^verbatim>\<open>authenticateAdmin\<close> resolves to success only when the provider's sign-in
  returned no error and a user that \<^verbatim>\<open>isAdmin\<close> accepts. A sign-in with neither error
  nor user gives failure with \<^verbatim>\<open>Authentication failed\<close>. The allow-list never holds
  the empty string, \<^verbatim>\<open>isAdmin\<close> refuses the empty string, and so a user without an
  email gets the access-denied failure.
\<close>

theorem authenticateAdmin_requires_user:
  "(authenticateAdmin signIn env email password = Inr r \<and> success r
      \<longrightarrow> (\<exists>resp u. signIn email password = Inr resp \<and> signin_error resp = None
             \<and> data_user resp = Some u
             \<and> isAdmin env (case user_email u of None \<Rightarrow> [] | Some em \<Rightarrow> em) = Inr True))
   \<and> (signIn email password = Inr resp \<and> signin_error resp = None \<and> data_user resp = None
      \<longrightarrow> authenticateAdmin signIn env email password =
            Inr \<lparr>success = False, error = Some ''Authentication failed''\<rparr>)
   \<and> (getAdminEmails env = Inr adminEmails \<longrightarrow> [] \<notin> set adminEmails)
   \<and> isAdmin env [] = Inr False
   \<and> (signIn email password = Inr resp \<and> signin_error resp = None \<and> data_user resp = Some u
      \<and> user_email u = None
      \<longrightarrow> authenticateAdmin signIn env email password =
            Inr \<lparr>success = False, error = Some ''Access denied. Admin access required.''\<rparr>)"
proof -
  have "authenticateAdmin signIn env email password =
            Inr \<lparr>success = False, error = Some ''Access denied. Admin access required.''\<rparr>"
    if "signIn email password = Inr resp" "signin_error resp = None" "data_user resp = Some u"
      "user_email u = None"
    using authenticateAdmin_user [of signIn email password resp u env False] that
    by (simp add: isAdmin_empty)
  then show ?thesis
    using authenticateAdmin_success_only_with_user [of signIn env email password r]
      authenticateAdmin_no_user [of signIn email password resp env]
      getAdminEmails_no_empty [of env adminEmails] isAdmin_empty [of env]
    by blast
qed

theorem authenticateAdmin_requires_user_witness:
  "authenticateAdmin
        (\<lambda>e p. Inr \<lparr>data_user = Some \<lparr>user_email = Some '' A@b.c''\<rparr>, signin_error = None\<rparr>)
        (Inr (Some '',a@b.c, ,'')) ''a@b.c'' ''secret''
     = Inr \<lparr>success = True, error = None\<rparr>
   \<and> success \<lparr>success = True, error = None\<rparr>
   \<and> isAdmin (Inr (Some '',a@b.c, ,'')) '' A@b.c'' = Inr True
   \<and> authenticateAdmin (\<lambda>e p. Inr \<lparr>data_user = None, signin_error = None\<rparr>) (Inr None)
        ''elmahboubimehdi@gmail.com'' ''secret''
     = Inr \<lparr>success = False, error = Some ''Authentication failed''\<rparr>
   \<and> getAdminEmails (Inr (Some '',a@b.c, ,'')) = Inr [''a@b.c'']
   \<and> [] \<notin> set [''a@b.c'']
   \<and> isAdmin (Inr (Some '',a@b.c, ,'')) [] = Inr False
   \<and> authenticateAdmin
        (\<lambda>e p. Inr \<lparr>data_user = Some \<lparr>user_email = None\<rparr>, signin_error = None\<rparr>)
        (Inr (Some '',a@b.c, ,'')) ''a@b.c'' ''secret''
     = Inr \<lparr>success = False, error = Some ''Access denied. Admin access required.''\<rparr>"
proof -
  have c: ?thesis by code_simp
  from authenticateAdmin_requires_user
    [of "\<lambda>e p. Inr \<lparr>data_user = Some \<lparr>user_email = None\<rparr>, signin_error = None\<rparr>"
        "Inr (Some '',a@b.c, ,'')" "''a@b.c''" "''secret''" "\<lparr>success = True, error = None\<rparr>"
        "\<lparr>data_user = Some \<lparr>user_email = None\<rparr>, signin_error = None\<rparr>"
        "[''a@b.c'']" "\<lparr>user_email = None\<rparr>"]
  have d: "authenticateAdmin
        (\<lambda>e p. Inr \<lparr>data_user = Some \<lparr>user_email = None\<rparr>, signin_error = None\<rparr>)
        (Inr (Some '',a@b.c, ,'')) ''a@b.c'' ''secret''
     = Inr \<lparr>success = False, error = Some ''Access denied. Admin access required.''\<rparr>"
    by simp
  from c d show ?thesis by simp
qed

section \<open>Properties of the upload handler\<close>

lemma POST_total: "\<exists>calls r. POST supabaseAdmin formDataResult = (calls, Inr r)"
proof (cases "POST_try supabaseAdmin formDataResult")
  case (Pair calls res)
  then show ?thesis by (cases res) (simp_all add: POST_def)
qed

lemma POST_catch:
  "POST_try supabaseAdmin formDataResult = (calls, Inl e) \<Longrightarrow>
   POST supabaseAdmin formDataResult =
     (calls, Inr \<lparr>status = 500, json = [(''error'', message_or e ''Failed to upload image'')]\<rparr>)"
  by (simp add: POST_def)

lemma POST_return:
  "POST_try supabaseAdmin formDataResult = (calls, Inr r) \<Longrightarrow>
   POST supabaseAdmin formDataResult = (calls, Inr r)"
  by (simp add: POST_def)

lemma POST_try_formData_throws: "POST_try supabaseAdmin (Inl e) = ([], Inl e)"
  by (simp add: POST_try_def)

lemma POST_try_no_file:
  "formData_get formData ''file'' = None \<or> formData_get formData ''file'' = Some (StringEntry []) \<Longrightarrow>
   POST_try supabaseAdmin (Inr formData) =
     ([], Inr \<lparr>status = 400, json = [(''error'', ''No file provided'')]\<rparr>)"
  by (auto simp: POST_try_def)

lemma POST_try_no_path:
  "formData_get formData ''file'' = Some file \<Longrightarrow> file \<noteq> StringEntry [] \<Longrightarrow>
   formData_get formData ''path'' = None \<or> formData_get formData ''path'' = Some (StringEntry []) \<Longrightarrow>
   POST_try supabaseAdmin (Inr formData) =
     ([], Inr \<lparr>status = 400, json = [(''error'', ''No path provided'')]\<rparr>)"
  by (auto simp: POST_try_def)

lemma POST_try_upload:
  "formData_get formData ''file'' = Some (FileEntry f) \<Longrightarrow>
   formData_get formData ''path'' = Some path \<Longrightarrow> path \<noteq> StringEntry [] \<Longrightarrow>
   call = \<lparr>bucket = ''product-images'', upload_path = path, body = file_bytes f,
           contentType = file_type f, upsert = True\<rparr> \<Longrightarrow>
   POST_try supabaseAdmin (Inr formData) =
     ([call],
      case upload supabaseAdmin call of
        Inl e \<Rightarrow> Inl e
      | Inr resp \<Rightarrow>
          (case upload_error resp of
             Some err \<Rightarrow>
               Inr \<lparr>status = 500,
                    json = [(''error'', message_or err ''Failed to upload image'')]\<rparr>
           | None \<Rightarrow>
               (case getPublicUrl supabaseAdmin ''product-images'' path of
                  Inl e \<Rightarrow> Inl e
                | Inr publicUrl \<Rightarrow>
                    (case data_path resp of
                       None \<Rightarrow> Inl typeError_data_path
                     | Some p \<Rightarrow>
                         Inr \<lparr>status = 200, json = [(''url'', publicUrl), (''path'', p)]\<rparr>))))"
  by (simp add: POST_try_def Let_def split: sum.splits option.splits)


text \<open>
  When the form data has no \<^verbatim>\<open>file\<close> entry, or no \<^verbatim>\<open>path\<close> entry, the handler
  answers with status 400 and an error message (\<^verbatim>\<open>No file provided\<close>, which comes first,
  or \<^verbatim>\<open>No path provided\<close>) and sends no upload to object storage.
\<close>

lemma POST_missing_entry:
  "(formData_get formData ''file'' = None
      \<longrightarrow> POST supabaseAdmin (Inr formData) =
            ([], Inr \<lparr>status = 400, json = [(''error'', ''No file provided'')]\<rparr>))
   \<and> (formData_get formData ''path'' = None
      \<longrightarrow> POST supabaseAdmin (Inr formData) =
            ([], Inr \<lparr>status = 400,
                      json = [(''error'',
                               if formData_get formData ''file'' = None
                                  \<or> formData_get formData ''file'' = Some (StringEntry [])
                               then ''No file provided'' else ''No path provided'')]\<rparr>))"
proof (intro conjI impI)
  assume "formData_get formData ''file'' = None"
  then show "POST supabaseAdmin (Inr formData) =
            ([], Inr \<lparr>status = 400, json = [(''error'', ''No file provided'')]\<rparr>)"
    by (simp add: POST_try_no_file POST_return)
next
  assume p: "formData_get formData ''path'' = None"
  show "POST supabaseAdmin (Inr formData) =
            ([], Inr \<lparr>status = 400,
                      json = [(''error'',
                               if formData_get formData ''file'' = None
                                  \<or> formData_get formData ''file'' = Some (StringEntry [])
                               then ''No file provided'' else ''No path provided'')]\<rparr>)"
  proof (cases "formData_get formData ''file'' = None
                 \<or> formData_get formData ''file'' = Some (StringEntry [])")
    case True
    then show ?thesis
      using POST_try_no_file [of formData supabaseAdmin] by (simp add: POST_return)
  next
    case False
    then obtain fv where "formData_get formData ''file'' = Some fv" "fv \<noteq> StringEntry []"
      by auto
    with p False show ?thesis
      using POST_try_no_path [of formData fv supabaseAdmin] by (simp add: POST_return)
  qed
qed

lemma POST_missing_entry_example:
  "formData_get [(''path'', StringEntry ''a.png'')] ''file'' = None
   \<and> POST \<lparr>upload = (\<lambda>c. Inr \<lparr>data_path = Some ''a.png'', upload_error = None\<rparr>),
           getPublicUrl = (\<lambda>b p. Inr ''https://cdn/a.png'')\<rparr>
        (Inr [(''path'', StringEntry ''a.png'')])
       = ([], Inr \<lparr>status = 400, json = [(''error'', ''No file provided'')]\<rparr>)
   \<and> formData_get [(''file'', FileEntry \<lparr>file_bytes = [1, 2], file_type = ''image/png''\<rparr>)]
         ''path'' = None
   \<and> POST \<lparr>upload = (\<lambda>c. Inr \<lparr>data_path = Some ''a.png'', upload_error = None\<rparr>),
           getPublicUrl = (\<lambda>b p. Inr ''https://cdn/a.png'')\<rparr>
        (Inr [(''file'', FileEntry \<lparr>file_bytes = [1, 2], file_type = ''image/png''\<rparr>)])
       = ([], Inr \<lparr>status = 400, json = [(''error'', ''No path provided'')]\<rparr>)"
  using POST_missing_entry
      [of "[(''path'', StringEntry ''a.png'')]"
          "\<lparr>upload = (\<lambda>c. Inr \<lparr>data_path = Some ''a.png'', upload_error = None\<rparr>),
            getPublicUrl = (\<lambda>b p. Inr ''https://cdn/a.png'')\<rparr>"]
    POST_missing_entry
      [of "[(''file'', FileEntry \<lparr>file_bytes = [1, 2], file_type = ''image/png''\<rparr>)]"
          "\<lparr>upload = (\<lambda>c. Inr \<lparr>data_path = Some ''a.png'', upload_error = None\<rparr>),
            getPublicUrl = (\<lambda>b p. Inr ''https://cdn/a.png'')\<rparr>"]
  by (simp add: formData_get_def)

text \<open>
  C7. A request without a file payload or without a path string is to get status 400 and
  no upload. The handler tests only \<^verbatim>\<open>!file\<close> and \<^verbatim>\<open>!path\<close>, so this holds when
  the entry is absent or the empty string (\<open>POST_missing_entry\<close>, \<open>POST_try_no_file\<close>,
  \<open>POST_try_no_path\<close>), and fails when the \<^verbatim>\<open>file\<close> entry is a non-empty text field:
  the request carries no file payload, the guard lets it through,
  \<^verbatim>\<open>file.arrayBuffer()\<close> throws, and the answer is status 500 with the TypeError's
  message, not 400.
\<close>

theorem POST_text_file_entry_is_500:
  "formData_get [(''file'', StringEntry ''not a file''), (''path'', StringEntry ''p/a.png'')]
      ''file'' = Some (StringEntry ''not a file'')
   \<and> POST \<lparr>upload = (\<lambda>c. Inr \<lparr>data_path = Some ''p/a.png'', upload_error = None\<rparr>),
           getPublicUrl = (\<lambda>b p. Inr ''https://cdn/p/a.png'')\<rparr>
        (Inr [(''file'', StringEntry ''not a file''), (''path'', StringEntry ''p/a.png'')])
     = ([], Inr \<lparr>status = 500,
                 json = [(''error'', ''file.arrayBuffer is not a function'')]\<rparr>)"
  by (simp add: POST_def POST_try_def formData_get_def typeError_arrayBuffer_def message_or_def)

text \<open>
  C8. With a File in the \<^verbatim>\<open>file\<close> entry and a \<^verbatim>\<open>path\<close> entry that is not the empty
  string, the handler sends exactly one upload, to the bucket \<^verbatim>\<open>product-images\<close>, with
  the given path, the file's bytes and type and with \<^verbatim>\<open>upsert\<close> true. When the provider
  answers without error and with a path, and the public URL is computed, the response
  has status 200 and its JSON has exactly the fields \<^verbatim>\<open>url\<close> (the public URL of the
  path) and \<^verbatim>\<open>path\<close> (the provider's path).
\<close>

theorem POST_upload_upsert:
  "(formData_get formData ''file'' = Some (FileEntry f)
    \<and> formData_get formData ''path'' = Some path \<and> path \<noteq> StringEntry []
    \<longrightarrow> fst (POST supabaseAdmin (Inr formData)) =
          [\<lparr>bucket = ''product-images'', upload_path = path, body = file_bytes f,
            contentType = file_type f, upsert = True\<rparr>])
   \<and> (formData_get formData ''file'' = Some (FileEntry f)
    \<and> formData_get formData ''path'' = Some path \<and> path \<noteq> StringEntry []
    \<and> upload supabaseAdmin
          \<lparr>bucket = ''product-images'', upload_path = path, body = file_bytes f,
           contentType = file_type f, upsert = True\<rparr>
        = Inr \<lparr>data_path = Some p, upload_error = None\<rparr>
    \<and> getPublicUrl supabaseAdmin ''product-images'' path = Inr publicUrl
    \<longrightarrow> snd (POST supabaseAdmin (Inr formData)) =
          Inr \<lparr>status = 200, json = [(''url'', publicUrl), (''path'', p)]\<rparr>)"
proof -
  let ?call = "\<lparr>bucket = ''product-images'', upload_path = path, body = file_bytes f,
                contentType = file_type f, upsert = True\<rparr>"
  have a: "fst (POST supabaseAdmin (Inr formData)) = [?call]"
    if "formData_get formData ''file'' = Some (FileEntry f)"
      "formData_get formData ''path'' = Some path" "path \<noteq> StringEntry []"
    using POST_try_upload [OF that refl, of supabaseAdmin]
    by (simp add: POST_def split: sum.splits option.splits)
  have b: "snd (POST supabaseAdmin (Inr formData)) =
          Inr \<lparr>status = 200, json = [(''url'', publicUrl), (''path'', p)]\<rparr>"
    if "formData_get formData ''file'' = Some (FileEntry f)"
      "formData_get formData ''path'' = Some path" "path \<noteq> StringEntry []"
      "upload supabaseAdmin ?call = Inr \<lparr>data_path = Some p, upload_error = None\<rparr>"
      "getPublicUrl supabaseAdmin ''product-images'' path = Inr publicUrl"
    using POST_try_upload [OF that(1-3) refl, of supabaseAdmin] that(4,5)
    by (simp add: POST_def)
  from a b show ?thesis by blast
qed


theorem POST_upload_upsert_witness:
  "formData_get [(''file'', FileEntry \<lparr>file_bytes = [1, 2], file_type = ''image/png''\<rparr>),
                 (''path'', StringEntry ''p/a.png'')] ''file''
     = Some (FileEntry \<lparr>file_bytes = [1, 2], file_type = ''image/png''\<rparr>)
   \<and> formData_get [(''file'', FileEntry \<lparr>file_bytes = [1, 2], file_type = ''image/png''\<rparr>),
                   (''path'', StringEntry ''p/a.png'')] ''path''
     = Some (StringEntry ''p/a.png'')
   \<and> StringEntry ''p/a.png'' \<noteq> StringEntry []
   \<and> POST \<lparr>upload = (\<lambda>c. if upsert c then Inr \<lparr>data_path = Some ''p/a.png'', upload_error = None\<rparr>
                         else Inr \<lparr>data_path = None,
                                   upload_error = Some (JsError (Some ''The resource already exists''))\<rparr>),
           getPublicUrl = (\<lambda>b p. Inr ''https://cdn/p/a.png'')\<rparr>
        (Inr [(''file'', FileEntry \<lparr>file_bytes = [1, 2], file_type = ''image/png''\<rparr>),
              (''path'', StringEntry ''p/a.png'')])
     = ([\<lparr>bucket = ''product-images'', upload_path = StringEntry ''p/a.png'', body = [1, 2],
          contentType = ''image/png'', upsert = True\<rparr>],
        Inr \<lparr>status = 200, json = [(''url'', ''https://cdn/p/a.png''), (''path'', ''p/a.png'')]\<rparr>)"
proof -
  let ?fd = "[(''file'', FileEntry \<lparr>file_bytes = [1, 2], file_type = ''image/png''\<rparr>),
              (''path'', StringEntry ''p/a.png'')]"
  let ?c = "\<lparr>upload = (\<lambda>c. if upsert c then Inr \<lparr>data_path = Some ''p/a.png'', upload_error = None\<rparr>
                         else Inr \<lparr>data_path = None,
                                   upload_error = Some (JsError (Some ''The resource already exists''))\<rparr>),
           getPublicUrl = (\<lambda>b p. Inr ''https://cdn/p/a.png'')\<rparr>"
  have h: "formData_get ?fd ''file'' = Some (FileEntry \<lparr>file_bytes = [1, 2], file_type = ''image/png''\<rparr>)
     \<and> formData_get ?fd ''path'' = Some (StringEntry ''p/a.png'')
     \<and> StringEntry ''p/a.png'' \<noteq> StringEntry []"
    by (simp add: formData_get_def)
  from POST_upload_upsert
    [of ?fd "\<lparr>file_bytes = [1, 2], file_type = ''image/png''\<rparr>" "StringEntry ''p/a.png''" ?c
        "''p/a.png''" "''https://cdn/p/a.png''"] h
  have "fst (POST ?c (Inr ?fd)) =
          [\<lparr>bucket = ''product-images'', upload_path = StringEntry ''p/a.png'', body = [1, 2],
            contentType = ''image/png'', upsert = True\<rparr>]
      \<and> snd (POST ?c (Inr ?fd)) =
          Inr \<lparr>status = 200, json = [(''url'', ''https://cdn/p/a.png''), (''path'', ''p/a.png'')]\<rparr>"
    by simp
  then have "POST ?c (Inr ?fd) =
       ([\<lparr>bucket = ''product-images'', upload_path = StringEntry ''p/a.png'', body = [1, 2],
          contentType = ''image/png'', upsert = True\<rparr>],
        Inr \<lparr>status = 200, json = [(''url'', ''https://cdn/p/a.png''), (''path'', ''p/a.png'')]\<rparr>)"
    by (simp add: prod_eq_iff)
  with h show ?thesis by simp
qed

text \<open>
  C9. The handler always returns a response and no exception leaves it. An exception
  that leaves the \<^verbatim>\<open>try\<close> block (from reading the form data, from the upload, or any
  other) and an error answered by the storage provider both give status 500 with an
  \<^verbatim>\<open>error\<close> field that is the message of the exception or of the provider's error, or
  \<^verbatim>\<open>Failed to upload image\<close> when that message is undefined or empty.
\<close>

theorem POST_failures_are_500:
  "(\<exists>calls r. POST supabaseAdmin formDataResult = (calls, Inr r))
   \<and> (POST_try supabaseAdmin formDataResult = (calls, Inl e)
      \<longrightarrow> POST supabaseAdmin formDataResult =
            (calls, Inr \<lparr>status = 500,
                         json = [(''error'', message_or e ''Failed to upload image'')]\<rparr>))
   \<and> (formDataResult = Inl e
      \<longrightarrow> POST supabaseAdmin formDataResult =
            ([], Inr \<lparr>status = 500,
                      json = [(''error'', message_or e ''Failed to upload image'')]\<rparr>))
   \<and> (formData_get formData ''file'' = Some (FileEntry f)
      \<and> formData_get formData ''path'' = Some path \<and> path \<noteq> StringEntry []
      \<and> upload supabaseAdmin
            \<lparr>bucket = ''product-images'', upload_path = path, body = file_bytes f,
             contentType = file_type f, upsert = True\<rparr> = Inr resp
      \<and> upload_error resp = Some err
      \<longrightarrow> snd (POST supabaseAdmin (Inr formData)) =
            Inr \<lparr>status = 500,
                 json = [(''error'', message_or err ''Failed to upload image'')]\<rparr>)
   \<and> (formData_get formData ''file'' = Some (FileEntry f)
      \<and> formData_get formData ''path'' = Some path \<and> path \<noteq> StringEntry []
      \<and> upload supabaseAdmin
            \<lparr>bucket = ''product-images'', upload_path = path, body = file_bytes f,
             contentType = file_type f, upsert = True\<rparr> = Inl e
      \<longrightarrow> snd (POST supabaseAdmin (Inr formData)) =
            Inr \<lparr>status = 500,
                 json = [(''error'', message_or e ''Failed to upload image'')]\<rparr>)
   \<and> (message e = Some m \<and> m \<noteq> [] \<longrightarrow> message_or e ''Failed to upload image'' = m)
   \<and> (message e = None \<or> message e = Some []
      \<longrightarrow> message_or e ''Failed to upload image'' = ''Failed to upload image'')"
proof -
  let ?call = "\<lparr>bucket = ''product-images'', upload_path = path, body = file_bytes f,
                contentType = file_type f, upsert = True\<rparr>"
  have a: "POST supabaseAdmin formDataResult =
            ([], Inr \<lparr>status = 500,
                      json = [(''error'', message_or e ''Failed to upload image'')]\<rparr>)"
    if "formDataResult = Inl e"
    using that by (simp add: POST_try_formData_throws POST_catch)
  have b: "snd (POST supabaseAdmin (Inr formData)) =
            Inr \<lparr>status = 500,
                 json = [(''error'', message_or err ''Failed to upload image'')]\<rparr>"
    if "formData_get formData ''file'' = Some (FileEntry f)"
      "formData_get formData ''path'' = Some path" "path \<noteq> StringEntry []"
      "upload supabaseAdmin ?call = Inr resp" "upload_error resp = Some err"
    using POST_try_upload [OF that(1-3) refl, of supabaseAdmin] that(4,5)
    by (simp add: POST_def)
  have c: "snd (POST supabaseAdmin (Inr formData)) =
            Inr \<lparr>status = 500,
                 json = [(''error'', message_or e ''Failed to upload image'')]\<rparr>"
    if "formData_get formData ''file'' = Some (FileEntry f)"
      "formData_get formData ''path'' = Some path" "path \<noteq> StringEntry []"
      "upload supabaseAdmin ?call = Inl e"
    using POST_try_upload [OF that(1-3) refl, of supabaseAdmin] that(4)
    by (simp add: POST_def)
  have d: "message_or e ''Failed to upload image'' = m" if "message e = Some m" "m \<noteq> []"
    using that by (simp add: message_or_def)
  have e: "message_or e ''Failed to upload image'' = ''Failed to upload image''"
    if "message e = None \<or> message e = Some []"
    using that by (auto simp: message_or_def)
  from a b c d e POST_total [of supabaseAdmin formDataResult]
    POST_catch [of supabaseAdmin formDataResult calls e]
  show ?thesis by blast
qed


theorem POST_failures_are_500_witness:
  "POST_try \<lparr>upload = (\<lambda>c. Inr \<lparr>data_path = None,
                                  upload_error = Some (JsError (Some ''Bucket not found''))\<rparr>),
              getPublicUrl = (\<lambda>b p. Inr ''https://cdn/p/a.png'')\<rparr>
        (Inr [(''file'', StringEntry ''not a file''), (''path'', StringEntry ''p/a.png'')])
     = ([], Inl typeError_arrayBuffer)
   \<and> POST \<lparr>upload = (\<lambda>c. Inr \<lparr>data_path = None,
                                  upload_error = Some (JsError (Some ''Bucket not found''))\<rparr>),
           getPublicUrl = (\<lambda>b p. Inr ''https://cdn/p/a.png'')\<rparr>
        (Inr [(''file'', StringEntry ''not a file''), (''path'', StringEntry ''p/a.png'')])
     = ([], Inr \<lparr>status = 500, json = [(''error'', ''file.arrayBuffer is not a function'')]\<rparr>)
   \<and> POST \<lparr>upload = (\<lambda>c. Inr \<lparr>data_path = None,
                                  upload_error = Some (JsError (Some ''Bucket not found''))\<rparr>),
           getPublicUrl = (\<lambda>b p. Inr ''https://cdn/p/a.png'')\<rparr>
        (Inl (JsError None))
     = ([], Inr \<lparr>status = 500, json = [(''error'', ''Failed to upload image'')]\<rparr>)
   \<and> snd (POST \<lparr>upload = (\<lambda>c. Inr \<lparr>data_path = None,
                                  upload_error = Some (JsError (Some ''Bucket not found''))\<rparr>),
           getPublicUrl = (\<lambda>b p. Inr ''https://cdn/p/a.png'')\<rparr>
        (Inr [(''file'', FileEntry \<lparr>file_bytes = [1, 2], file_type = ''image/png''\<rparr>),
              (''path'', StringEntry ''p/a.png'')]))
     = Inr \<lparr>status = 500, json = [(''error'', ''Bucket not found'')]\<rparr>
   \<and> snd (POST \<lparr>upload = (\<lambda>c. Inl (JsError (Some ''fetch failed''))),
           getPublicUrl = (\<lambda>b p. Inr ''https://cdn/p/a.png'')\<rparr>
        (Inr [(''file'', FileEntry \<lparr>file_bytes = [1, 2], file_type = ''image/png''\<rparr>),
              (''path'', StringEntry ''p/a.png'')]))
     = Inr \<lparr>status = 500, json = [(''error'', ''fetch failed'')]\<rparr>"
proof -
  let ?c = "\<lparr>upload = (\<lambda>c. Inr \<lparr>data_path = None,
                                  upload_error = Some (JsError (Some ''Bucket not found''))\<rparr>),
           getPublicUrl = (\<lambda>b p. Inr ''https://cdn/p/a.png'')\<rparr>"
  let ?t = "\<lparr>upload = (\<lambda>c. Inl (JsError (Some ''fetch failed''))),
           getPublicUrl = (\<lambda>b p. Inr ''https://cdn/p/a.png'')\<rparr>"
  let ?f = "\<lparr>file_bytes = [1, 2], file_type = ''image/png''\<rparr>"
  let ?fd = "[(''file'', FileEntry ?f), (''path'', StringEntry ''p/a.png'')]"
  let ?bad = "[(''file'', StringEntry ''not a file''), (''path'', StringEntry ''p/a.png'')]"
  have h1: "POST_try ?c (Inr ?bad) = ([], Inl typeError_arrayBuffer)"
    by (simp add: POST_try_def formData_get_def)
  have m1: "message typeError_arrayBuffer = Some ''file.arrayBuffer is not a function''"
    by (simp add: typeError_arrayBuffer_def)
  have fd: "formData_get ?fd ''file'' = Some (FileEntry ?f)
     \<and> formData_get ?fd ''path'' = Some (StringEntry ''p/a.png'')
     \<and> StringEntry ''p/a.png'' \<noteq> StringEntry []"
    by (simp add: formData_get_def)
  from POST_failures_are_500
    [of ?c "Inr ?bad" "[]" typeError_arrayBuffer ?fd ?f "StringEntry ''p/a.png''"
        "\<lparr>data_path = None, upload_error = Some (JsError (Some ''Bucket not found''))\<rparr>"
        "JsError (Some ''Bucket not found'')" "''file.arrayBuffer is not a function''"] h1 m1 fd
  have a: "POST ?c (Inr ?bad) =
      ([], Inr \<lparr>status = 500, json = [(''error'', ''file.arrayBuffer is not a function'')]\<rparr>)"
    and b: "snd (POST ?c (Inr ?fd)) = Inr \<lparr>status = 500,
       json = [(''error'', message_or (JsError (Some ''Bucket not found'')) ''Failed to upload image'')]\<rparr>"
    by simp_all
  from POST_failures_are_500
    [of ?c "Inl (JsError None)" "[]" "JsError None" ?fd ?f "StringEntry ''p/a.png''"
        "\<lparr>data_path = None, upload_error = Some (JsError (Some ''Bucket not found''))\<rparr>"
        "JsError (Some ''Bucket not found'')" "''x''"]
  have c: "POST ?c (Inl (JsError None)) =
      ([], Inr \<lparr>status = 500, json = [(''error'', ''Failed to upload image'')]\<rparr>)"
    by simp
  from POST_failures_are_500
    [of ?t "Inr ?fd" "[]" "JsError (Some ''fetch failed'')" ?fd ?f "StringEntry ''p/a.png''"
        "\<lparr>data_path = None, upload_error = None\<rparr>"
        "JsError (Some ''fetch failed'')" "''fetch failed''"] fd
  have d: "snd (POST ?t (Inr ?fd)) = Inr \<lparr>status = 500, json = [(''error'', ''fetch failed'')]\<rparr>"
    by simp
  from h1 a b c d show ?thesis by (simp add: message_or_def)
qed

end
